theory Spec2Isabelle
  imports Complex_Main "HOL-Library.Word"
begin

section \<open>The itinerary worker: job lifecycle, retry policy and response validation\<close>

text \<open>
  A shallow embedding of the Cloudflare worker (\<^verbatim>\<open>retryWithBackoff\<close>,
  \<^verbatim>\<open>generateItineraryAsync\<close>, the \<^verbatim>\<open>fetch\<close> handler and
  \<^verbatim>\<open>itinerarySchema\<close>). Everything the worker obtains from outside (the
  outcome of each network call, the clock, the id generator) is an explicit argument;
  everything it does to the outside (delays slept, store writes issued) is returned.
\<close>

subsection \<open>Strings\<close>

text \<open>
  A JavaScript string is a sequence of UTF-16 code units. \<open>js\<close> embeds an ASCII literal
  of the source.
\<close>

type_synonym jschar = "16 word"
type_synonym jsstring = "jschar list"

definition js :: "string \<Rightarrow> jsstring" where
  "js s = map (\<lambda>c. of_nat (of_char c)) s"

definition LF :: jschar where
  "LF = 0x0A"

definition fence :: jsstring where
  "fence = [0x60, 0x60, 0x60]"

text \<open>
  \<^verbatim>\<open>String.prototype.trim\<close> removes the code units of WhiteSpace and
  LineTerminator from both ends.
\<close>

definition isWhiteSpace :: "jschar \<Rightarrow> bool" where
  "isWhiteSpace c \<longleftrightarrow>
     c = 0x09 \<or> c = 0x0A \<or> c = 0x0B \<or> c = 0x0C \<or> c = 0x0D \<or> c = 0x20 \<or> c = 0xA0
     \<or> c = 0x1680 \<or> (0x2000 \<le> c \<and> c \<le> 0x200A) \<or> c = 0x2028 \<or> c = 0x2029
     \<or> c = 0x202F \<or> c = 0x205F \<or> c = 0x3000 \<or> c = 0xFEFF"

definition trim :: "jsstring \<Rightarrow> jsstring" where
  "trim s = rev (dropWhile isWhiteSpace (rev (dropWhile isWhiteSpace s)))"

definition startsWith :: "jsstring \<Rightarrow> jsstring \<Rightarrow> bool" where
  "startsWith s p \<longleftrightarrow> take (length p) s = p"

text \<open>\<^verbatim>\<open>s.split("\n")\<close>: always at least one line.\<close>

fun split_lines :: "jsstring \<Rightarrow> jsstring list" where
  "split_lines [] = [[]]"
| "split_lines (c # cs) =
     (if c = LF then [] # split_lines cs
      else (case split_lines cs of
              [] \<Rightarrow> [[c]]
            | l # ls \<Rightarrow> (c # l) # ls))"

text \<open>\<^verbatim>\<open>lines.join("\n")\<close>\<close>

fun join_lines :: "jsstring list \<Rightarrow> jsstring" where
  "join_lines [] = []"
| "join_lines [l] = l"
| "join_lines (l # ls) = l @ LF # join_lines ls"

subsection \<open>Decoded JSON values\<close>

text \<open>
  A number is a double: a finite value, an infinity (\<^verbatim>\<open>JSON.parse("1e999")\<close>) or,
  as the result of a conversion only, NaN. An object is the list of its own properties;
  \<open>None\<close> stands for \<^verbatim>\<open>undefined\<close> wherever a value may be absent.
\<close>

datatype jsnum = NaN | NegInf | Num real | PosInf

datatype json =
    JNull
  | JBool bool
  | JNum jsnum
  | JStr jsstring
  | JArr "json list"
  | JObj "(jsstring \<times> json) list"

subsection \<open>Cleaning the model's text\<close>

text \<open>
  \<^verbatim>\<open>
  let rawText = result.candidates[0].content.parts[0].text.trim();
  if (rawText.startsWith("```")) {
    const lines = rawText.split("\n");
    if (lines.length >= 3) {
      lines.shift();
      lines.pop();
      rawText = lines.join("\n").trim();
    }
  }
  const generated = JSON.parse(rawText);
  \<close>
  \<open>stripFences\<close> is the conditional on the trimmed text, \<open>cleanRawText\<close> the
  whole of it from the untrimmed text. \<^verbatim>\<open>JSON.parse\<close> is the language's own
  parser: it is an argument \<open>JSON_parse\<close>, which returns the parsed value or the
  message of the SyntaxError it throws.
\<close>

definition stripFences :: "jsstring \<Rightarrow> jsstring" where
  "stripFences rawText =
     (if startsWith rawText fence then
        (let lines = split_lines rawText in
         if 3 \<le> length lines then trim (join_lines (butlast (tl lines)))
         else rawText)
      else rawText)"

definition cleanRawText :: "jsstring \<Rightarrow> jsstring" where
  "cleanRawText text = stripFences (trim text)"

definition parseGenerated :: "(jsstring \<Rightarrow> 'e + 'v) \<Rightarrow> jsstring \<Rightarrow> 'e + 'v" where
  "parseGenerated JSON_parse text = JSON_parse (cleanRawText text)"

text \<open>
  The raw text of the fence-stripping property: an opening fence line (three backticks
  and an optional language tag), the content, and a closing fence line.
\<close>

definition fenced :: "jsstring \<Rightarrow> jsstring \<Rightarrow> jsstring" where
  "fenced tag content = fence @ tag @ LF # content @ LF # fence"

subsection \<open>The itinerary schema\<close>

text \<open>
  \<^verbatim>\<open>
  const itinerarySchema = z.object({
    itinerary: z.array(
      z.object({
        day: z.number().int(),
        theme: z.string(),
        activities: z.array(
          z.object({ time: z.string(), description: z.string(), location: z.string() })
        ),
      })
    ),
  });
  \<close>
  The schema is a value; \<open>parse\<close> interprets it the way the validation library does
  for these four combinators: a type check at each node, one issue per violation with
  the path of the offending node (an absent key is received as \<^verbatim>\<open>undefined\<close>),
  all issues of an array or an object collected, and an object rebuilt from the keys of
  its shape only, so that unknown keys are stripped.
\<close>

datatype seg = Key jsstring | Idx nat

datatype expected = TObject | TArray | TString | TNumber | TInteger

datatype issue = Issue (path: "seg list") (expected: expected) (received: "json option")

datatype schema = ZString | ZInt | ZArray schema | ZObject "(jsstring \<times> schema) list"

text \<open>\<^verbatim>\<open>Number.isInteger\<close>\<close>

fun isInteger :: "jsnum \<Rightarrow> bool" where
  "isInteger (Num x) = (of_int \<lfloor>x\<rfloor> = x)"
| "isInteger _ = False"

fun collect :: "(issue list + 'a) list \<Rightarrow> issue list + 'a list" where
  "collect [] = Inr []"
| "collect (r # rs) =
     (case r of
        Inl es \<Rightarrow> (case collect rs of Inl fs \<Rightarrow> Inl (es @ fs) | Inr _ \<Rightarrow> Inl es)
      | Inr v \<Rightarrow> (case collect rs of Inl fs \<Rightarrow> Inl fs | Inr vs \<Rightarrow> Inr (v # vs)))"

fun parse :: "schema \<Rightarrow> seg list \<Rightarrow> json option \<Rightarrow> issue list + json" where
  "parse ZString p v =
     (case v of
        Some (JStr s) \<Rightarrow> Inr (JStr s)
      | _ \<Rightarrow> Inl [Issue p TString v])"
| "parse ZInt p v =
     (case v of
        Some (JNum n) \<Rightarrow>
          (if n = NaN then Inl [Issue p TNumber v]
           else if isInteger n then Inr (JNum n)
           else Inl [Issue p TInteger v])
      | _ \<Rightarrow> Inl [Issue p TNumber v])"
| "parse (ZArray s) p v =
     (case v of
        Some (JArr xs) \<Rightarrow>
          (case collect (map (\<lambda>(i, x). parse s (p @ [Idx i]) (Some x)) (enumerate 0 xs)) of
             Inl es \<Rightarrow> Inl es
           | Inr ys \<Rightarrow> Inr (JArr ys))
      | _ \<Rightarrow> Inl [Issue p TArray v])"
| "parse (ZObject shape) p v =
     (case v of
        Some (JObj kvs) \<Rightarrow>
          (case collect (map (\<lambda>(k, s). parse s (p @ [Key k]) (map_of kvs k)) shape) of
             Inl es \<Rightarrow> Inl es
           | Inr ys \<Rightarrow> Inr (JObj (zip (map fst shape) ys)))
      | _ \<Rightarrow> Inl [Issue p TObject v])"

text \<open>\<^verbatim>\<open>schema.safeParse(value)\<close>: the issues, or the parsed data.\<close>

definition safeParse :: "schema \<Rightarrow> json \<Rightarrow> issue list + json" where
  "safeParse s v = parse s [] (Some v)"

definition itinerarySchema :: schema where
  "itinerarySchema =
     ZObject [(js ''itinerary'',
       ZArray (ZObject
         [(js ''day'', ZInt),
          (js ''theme'', ZString),
          (js ''activities'',
             ZArray (ZObject
               [(js ''time'', ZString),
                (js ''description'', ZString),
                (js ''location'', ZString)]))]))]"

text \<open>The two inner object shapes of the schema, named.\<close>

definition activityShape :: "(jsstring \<times> schema) list" where
  "activityShape = [(js ''time'', ZString), (js ''description'', ZString), (js ''location'', ZString)]"

definition dayShape :: "(jsstring \<times> schema) list" where
  "dayShape = [(js ''day'', ZInt), (js ''theme'', ZString), (js ''activities'', ZArray (ZObject activityShape))]"

text \<open>A day without \<^verbatim>\<open>theme\<close> whose one activity has no \<^verbatim>\<open>description\<close>.\<close>

definition sample_activity :: "(jsstring \<times> json) list" where
  "sample_activity = [(js ''time'', JStr (js ''9:00'')), (js ''location'', JStr (js ''Louvre''))]"

definition sample_day :: "(jsstring \<times> json) list" where
  "sample_day = [(js ''day'', JNum (Num 1)), (js ''activities'', JArr [JObj sample_activity])]"

subsection \<open>Retry with exponential backoff\<close>

text \<open>
  \<^verbatim>\<open>
  async function retryWithBackoff(fn, retries = 3, delay = 500) {
    try { return await fn(); }
    catch (err) {
      if (retries === 0) throw err;
      await new Promise((resolve) => setTimeout(resolve, delay));
      return retryWithBackoff(fn, retries - 1, delay * 2);
    }
  }
  \<close>
  \<open>fn\<close> is an effectful thunk: \<open>fn k\<close> is the outcome of its \<open>k\<close>-th call
  (counted from 0), and the first argument after it is the number of calls made so far.
  The result is the outcome of the whole call together with the delays slept, in order.
  The worker only ever calls it with the default \<open>retries = 3\<close>, a natural number.
\<close>

datatype ('a, 'e) attempt = Returns 'a | Throws 'e

fun retryWithBackoff ::
  "(nat \<Rightarrow> ('a, 'e) attempt) \<Rightarrow> nat \<Rightarrow> nat \<Rightarrow> int \<Rightarrow> ('a, 'e) attempt \<times> int list" where
  "retryWithBackoff fn k 0 delay =
     (case fn k of
        Returns v \<Rightarrow> (Returns v, [])
      | Throws err \<Rightarrow> (Throws err, []))"
| "retryWithBackoff fn k (Suc retries) delay =
     (case fn k of
        Returns v \<Rightarrow> (Returns v, [])
      | Throws err \<Rightarrow>
          (case retryWithBackoff fn (Suc k) retries (delay * 2) of
             (res, ds) \<Rightarrow> (res, delay # ds)))"

text \<open>The defaults of the source: 3 retries, 500 ms initial delay.\<close>

definition retryWithBackoff_default ::
  "(nat \<Rightarrow> ('a, 'e) attempt) \<Rightarrow> ('a, 'e) attempt \<times> int list" where
  "retryWithBackoff_default fn = retryWithBackoff fn 0 3 500"

subsection \<open>Errors and the outside world\<close>

text \<open>
  The \<^verbatim>\<open>message\<close> of whatever is thrown. \<open>Thrown\<close> carries the text of an
  exception raised by the platform (a network error of \<^verbatim>\<open>fetch\<close>, a body that
  \<^verbatim>\<open>response.json()\<close> cannot read, a SyntaxError of \<^verbatim>\<open>JSON.parse\<close>, a
  failure inside \<^verbatim>\<open>writeToFirestore\<close>); \<open>CannotRead\<close> and \<open>NotAFunction\<close> are
  the TypeErrors of a property read on \<^verbatim>\<open>undefined\<close> or \<^verbatim>\<open>null\<close> and of
  a call of something that is not a function; the last two are the errors the worker
  throws itself: \<^verbatim>\<open>`Gemini failed: ${response.status}`\<close> and
  \<^verbatim>\<open>`Validation error: ${validation.error.message}`\<close>.
\<close>

datatype message =
    Thrown jsstring
  | CannotRead seg
  | NotAFunction
  | GeminiFailed nat
  | ValidationError "issue list"

text \<open>
  A response of the generation API: its status and what \<^verbatim>\<open>response.json()\<close>
  gives. \<^verbatim>\<open>response.ok\<close> is true for the statuses 200 to 299.
\<close>

record response =
  status :: nat
  json_body :: "message + json"

definition ok :: "response \<Rightarrow> bool" where
  "ok r \<longleftrightarrow> 200 \<le> status r \<and> status r \<le> 299"

type_synonym timestamp = nat
type_synonym jobId = jsstring

text \<open>
  The object handed to \<^verbatim>\<open>writeToFirestore\<close>: its keys in order, each with a
  value. \<^verbatim>\<open>formatFirestoreFields\<close> emits no field for a value that is
  \<^verbatim>\<open>undefined\<close>.
\<close>

datatype jobstatus = processing | completed | failed

datatype fval =
    VUndefined
  | VNull
  | VStatus jobstatus
  | VJson json
  | VTime timestamp
  | VMessage message

type_synonym payload = "(string \<times> fval) list"
type_synonym store_write = "jobId \<times> payload"

text \<open>
  What the worker gets from outside: \<open>gemini k\<close> is the outcome of the \<open>k\<close>-th call
  of \<^verbatim>\<open>fetch\<close> to the generation API (a response, or a network error thrown),
  \<open>firestore k\<close> the outcome of the \<open>k\<close>-th call of \<^verbatim>\<open>writeToFirestore\<close>
  (\<open>None\<close>: resolved; \<open>Some err\<close>: it threw \<open>err\<close>), \<open>clock k\<close> the time read
  for the \<open>k\<close>-th write. \<open>JSON_parse\<close> and \<open>toNumber\<close> are the language's
  \<^verbatim>\<open>JSON.parse\<close> and its conversion of a string, an array or an object to a
  number, which gives the number or the message of the TypeError it throws.
\<close>

record world =
  gemini :: "nat \<Rightarrow> (response, message) attempt"
  JSON_parse :: "jsstring \<Rightarrow> message + json"
  toNumber :: "json \<Rightarrow> message + jsnum"
  firestore :: "nat \<Rightarrow> message option"
  clock :: "nat \<Rightarrow> timestamp"

text \<open>
  \<^verbatim>\<open>writeToFirestore(env, jobId, data)\<close>: \<open>ws\<close> holds the calls made so far, each
  with its job id and its data; the call is appended and its outcome returned
  (the source logs an error and rethrows it).
\<close>

definition writeToFirestore ::
  "world \<Rightarrow> store_write list \<Rightarrow> jobId \<Rightarrow> payload \<Rightarrow> message option \<times> store_write list" where
  "writeToFirestore w ws jobId data = (firestore w (length ws), ws @ [(jobId, data)])"

subsection \<open>Reading the API's answer\<close>

text \<open>
  \<^verbatim>\<open>result.candidates[0].content.parts[0].text.trim()\<close>. Reading a property of
  \<^verbatim>\<open>undefined\<close> or \<^verbatim>\<open>null\<close> throws; an object gives its own property or
  \<^verbatim>\<open>undefined\<close>; any other value has none of the properties read here.
  \<open>[0]\<close> of an array is its first element, of a string its first code unit, of an
  object its property \<^verbatim>\<open>"0"\<close>. \<^verbatim>\<open>.trim()\<close> needs a string.
\<close>

fun get_prop :: "json option \<Rightarrow> jsstring \<Rightarrow> message + json option" where
  "get_prop None k = Inl (CannotRead (Key k))"
| "get_prop (Some JNull) k = Inl (CannotRead (Key k))"
| "get_prop (Some (JObj kvs)) k = Inr (map_of kvs k)"
| "get_prop (Some _) k = Inr None"

fun get_first :: "json option \<Rightarrow> message + json option" where
  "get_first None = Inl (CannotRead (Idx 0))"
| "get_first (Some JNull) = Inl (CannotRead (Idx 0))"
| "get_first (Some (JArr xs)) = Inr (case xs of [] \<Rightarrow> None | x # _ \<Rightarrow> Some x)"
| "get_first (Some (JObj kvs)) = Inr (map_of kvs (js ''0''))"
| "get_first (Some (JStr s)) = Inr (case s of [] \<Rightarrow> None | c # _ \<Rightarrow> Some (JStr [c]))"
| "get_first (Some _) = Inr None"

fun trim_receiver :: "json option \<Rightarrow> message + jsstring" where
  "trim_receiver None = Inl (CannotRead (Key (js ''trim'')))"
| "trim_receiver (Some JNull) = Inl (CannotRead (Key (js ''trim'')))"
| "trim_receiver (Some (JStr s)) = Inr s"
| "trim_receiver (Some _) = Inl NotAFunction"

definition andThen :: "'e + 'a \<Rightarrow> ('a \<Rightarrow> 'e + 'b) \<Rightarrow> 'e + 'b" where
  "andThen r f = (case r of Inl e \<Rightarrow> Inl e | Inr v \<Rightarrow> f v)"

text \<open>The string whose \<^verbatim>\<open>trim()\<close> is the raw text.\<close>

definition extractText :: "json \<Rightarrow> message + jsstring" where
  "extractText result =
     andThen (get_prop (Some result) (js ''candidates'')) (\<lambda>candidates.
     andThen (get_first candidates) (\<lambda>candidate.
     andThen (get_prop candidate (js ''content'')) (\<lambda>content.
     andThen (get_prop content (js ''parts'')) (\<lambda>parts.
     andThen (get_first parts) (\<lambda>part.
     andThen (get_prop part (js ''text'')) trim_receiver)))))"

subsection \<open>The background task\<close>

text \<open>
  The \<^verbatim>\<open>try\<close> block of \<^verbatim>\<open>generateItineraryAsync\<close> up to the validation:
  the request under the retry policy with its defaults, the check of
  \<^verbatim>\<open>response.ok\<close> after it, the extraction and cleaning of the text,
  \<^verbatim>\<open>JSON.parse\<close> and \<^verbatim>\<open>itinerarySchema.safeParse\<close>. The result is the error
  that leaves the block or the validated data, with the delays slept.
\<close>

definition generate :: "world \<Rightarrow> (message + json) \<times> int list" where
  "generate w =
     (case retryWithBackoff_default (gemini w) of
        (Throws err, ds) \<Rightarrow> (Inl err, ds)
      | (Returns res, ds) \<Rightarrow>
          (if \<not> ok res then (Inl (GeminiFailed (status res)), ds)
           else
             (andThen (json_body res) (\<lambda>result.
              andThen (extractText result) (\<lambda>text.
              andThen (parseGenerated (JSON_parse w) text) (\<lambda>generated.
                case safeParse itinerarySchema generated of
                  Inl issues \<Rightarrow> Inl (ValidationError issues)
                | Inr data \<Rightarrow> Inr data))), ds)))"

text \<open>\<^verbatim>\<open>validation.data.itinerary\<close>\<close>

fun member_of :: "json \<Rightarrow> jsstring \<Rightarrow> fval" where
  "member_of (JObj kvs) k = (case map_of kvs k of None \<Rightarrow> VUndefined | Some v \<Rightarrow> VJson v)"
| "member_of _ k = VUndefined"

text \<open>
  \<^verbatim>\<open>
  async function generateItineraryAsync(jobId, destination, durationDays, env) {
    try {
      ...
      await writeToFirestore(env, jobId, {
        status: "completed", itinerary: validation.data.itinerary,
        completedAt: new Date().toISOString() });
    } catch (err) {
      await writeToFirestore(env, jobId, {
        status: "failed", error: err.message, completedAt: new Date().toISOString() });
    }
  }
  \<close>
  The completed write is the last statement of the \<^verbatim>\<open>try\<close> block, so an error
  it throws is caught like any other; an error thrown by the write of the
  \<^verbatim>\<open>catch\<close> block leaves the function. \<open>destination\<close> and \<open>durationDays\<close>
  only enter the prompt. A run gives the error the task's promise rejects with, if any,
  the calls of \<^verbatim>\<open>writeToFirestore\<close> and the delays slept.
\<close>

record run =
  rejected :: "message option"
  writes :: "store_write list"
  delays :: "int list"

definition catch_block :: "world \<Rightarrow> store_write list \<Rightarrow> jobId \<Rightarrow> message \<Rightarrow> message option \<times> store_write list" where
  "catch_block w ws jobId err =
     writeToFirestore w ws jobId
       [(''status'', VStatus failed),
        (''error'', VMessage err),
        (''completedAt'', VTime (clock w (length ws)))]"

definition generateItineraryAsync ::
  "world \<Rightarrow> store_write list \<Rightarrow> jobId \<Rightarrow> json option \<Rightarrow> json option \<Rightarrow> run" where
  "generateItineraryAsync w ws jobId destination durationDays =
     (case generate w of
        (Inl err, ds) \<Rightarrow>
          (case catch_block w ws jobId err of
             (r, ws') \<Rightarrow> \<lparr>rejected = r, writes = ws', delays = ds\<rparr>)
      | (Inr data, ds) \<Rightarrow>
          (case writeToFirestore w ws jobId
                  [(''status'', VStatus completed),
                   (''itinerary'', member_of data (js ''itinerary'')),
                   (''completedAt'', VTime (clock w (length ws)))] of
             (None, ws') \<Rightarrow> \<lparr>rejected = None, writes = ws', delays = ds\<rparr>
           | (Some err, ws') \<Rightarrow>
               (case catch_block w ws' jobId err of
                  (r, ws'') \<Rightarrow> \<lparr>rejected = r, writes = ws'', delays = ds\<rparr>)))"

subsection \<open>The request handler\<close>

text \<open>
  \<^verbatim>\<open>
  const { destination, durationDays } = body;
  if (!destination || typeof destination !== "string" || !durationDays || durationDays <= 0)
    return new Response(..., { status: 400 });
  \<close>
  \<open>truthy\<close> is the negation of \<^verbatim>\<open>!\<close>. \<^verbatim>\<open><=\<close> converts its left operand
  to a number and is false on NaN; the conversion of an object or an array can throw a
  TypeError (an object whose \<^verbatim>\<open>toString\<close> is not callable, as the JSON value
  \<^verbatim>\<open>{"toString": 0}\<close>), which leaves the handler. The operands of
  \<^verbatim>\<open>||\<close> are evaluated from the left, so the comparison is reached only when
  the three tests before it are false.
\<close>

fun truthy :: "json option \<Rightarrow> bool" where
  "truthy None = False"
| "truthy (Some JNull) = False"
| "truthy (Some (JBool b)) = b"
| "truthy (Some (JNum n)) = (n \<noteq> NaN \<and> n \<noteq> Num 0)"
| "truthy (Some (JStr s)) = (s \<noteq> [])"
| "truthy (Some _) = True"

fun typeof_string :: "json option \<Rightarrow> bool" where
  "typeof_string (Some (JStr s)) = True"
| "typeof_string _ = False"

fun ToNumber :: "(json \<Rightarrow> message + jsnum) \<Rightarrow> json option \<Rightarrow> message + jsnum" where
  "ToNumber cv None = Inr NaN"
| "ToNumber cv (Some JNull) = Inr (Num 0)"
| "ToNumber cv (Some (JBool b)) = Inr (Num (if b then 1 else 0))"
| "ToNumber cv (Some (JNum n)) = Inr n"
| "ToNumber cv (Some v) = cv v"

fun le_zero :: "jsnum \<Rightarrow> bool" where
  "le_zero NaN = False"
| "le_zero NegInf = True"
| "le_zero (Num x) = (x \<le> 0)"
| "le_zero PosInf = False"

fun fval_of :: "json option \<Rightarrow> fval" where
  "fval_of None = VUndefined"
| "fval_of (Some v) = VJson v"

text \<open>
  The handler: \<open>jobId\<close> is what \<^verbatim>\<open>nanoid()\<close> returns, \<open>req_json\<close> what
  \<^verbatim>\<open>req.json()\<close> gives. The result is the reply (or the error the handler
  throws), the writes issued before it, and the arguments of the task handed to
  \<^verbatim>\<open>ctx.waitUntil\<close>, if one is. \<open>createJob\<close> is the part of the
  \<^verbatim>\<open>POST /api\<close> branch that follows the reading of the body: the destructuring
  (which throws on \<^verbatim>\<open>null\<close>), the guard, the initial write and the reply.
\<close>

record request =
  http_method :: string
  pathname :: string
  req_json :: "message + json"

datatype reply_body = InvalidJSON | RequiresDestinationAndDurationDays | NotFound | JobBody jobId

datatype reply = StaticAsset | Reply nat reply_body | Uncaught message

record handled =
  reply :: reply
  issued :: "store_write list"
  background :: "(jobId \<times> json option \<times> json option) option"

definition createJob :: "world \<Rightarrow> jobId \<Rightarrow> json \<Rightarrow> handled" where
  "createJob w jobId body =
     (case get_prop (Some body) (js ''destination'') of
        Inl err \<Rightarrow> \<lparr>reply = Uncaught err, issued = [], background = None\<rparr>
      | Inr destination \<Rightarrow>
     (case get_prop (Some body) (js ''durationDays'') of
        Inl err \<Rightarrow> \<lparr>reply = Uncaught err, issued = [], background = None\<rparr>
      | Inr durationDays \<Rightarrow>
          (if \<not> truthy destination \<or> \<not> typeof_string destination \<or> \<not> truthy durationDays
           then \<lparr>reply = Reply 400 RequiresDestinationAndDurationDays, issued = [], background = None\<rparr>
           else
          (case ToNumber (toNumber w) durationDays of
             Inl err \<Rightarrow> \<lparr>reply = Uncaught err, issued = [], background = None\<rparr>
           | Inr days \<Rightarrow>
          (if le_zero days
           then \<lparr>reply = Reply 400 RequiresDestinationAndDurationDays, issued = [], background = None\<rparr>
           else
             (case writeToFirestore w [] jobId
                     [(''status'', VStatus processing),
                      (''destination'', fval_of destination),
                      (''durationDays'', fval_of durationDays),
                      (''createdAt'', VTime (clock w 0)),
                      (''completedAt'', VNull),
                      (''itinerary'', VNull),
                      (''error'', VNull)] of
                (Some err, ws) \<Rightarrow> \<lparr>reply = Uncaught err, issued = ws, background = None\<rparr>
              | (None, ws) \<Rightarrow>
                  \<lparr>reply = Reply 202 (JobBody jobId), issued = ws,
                   background = Some (jobId, destination, durationDays)\<rparr>))))))"

definition fetch :: "world \<Rightarrow> jobId \<Rightarrow> request \<Rightarrow> handled" where
  "fetch w jobId req =
     (if http_method req = ''GET'' \<and> pathname req = ''/'' then
        \<lparr>reply = StaticAsset, issued = [], background = None\<rparr>
      else if http_method req = ''POST'' \<and> pathname req = ''/api'' then
        (case req_json req of
           Inl err \<Rightarrow> \<lparr>reply = Reply 400 InvalidJSON, issued = [], background = None\<rparr>
         | Inr body \<Rightarrow> createJob w jobId body)
      else \<lparr>reply = Reply 404 NotFound, issued = [], background = None\<rparr>)"

text \<open>
  A request and the task it leaves behind: the task starts after the initial write has
  resolved and the handler has handed it to \<^verbatim>\<open>ctx.waitUntil\<close>.
\<close>

definition lifecycle :: "world \<Rightarrow> jobId \<Rightarrow> request \<Rightarrow> run" where
  "lifecycle w jobId req =
     (case background (fetch w jobId req) of
        None \<Rightarrow> \<lparr>rejected = None, writes = issued (fetch w jobId req), delays = []\<rparr>
      | Some (j, destination, durationDays) \<Rightarrow>
          generateItineraryAsync w (issued (fetch w jobId req)) j destination durationDays)"

subsection \<open>The job record\<close>

text \<open>
  A write is terminal when its status is \<^verbatim>\<open>completed\<close> or \<^verbatim>\<open>failed\<close>.
\<close>

definition terminal :: "payload \<Rightarrow> bool" where
  "terminal data \<longleftrightarrow>
     map_of data ''status'' = Some (VStatus completed) \<or> map_of data ''status'' = Some (VStatus failed)"

definition terminal_writes :: "jobId \<Rightarrow> store_write list \<Rightarrow> payload list" where
  "terminal_writes jobId ws = map snd (filter (\<lambda>(j, data). j = jobId \<and> terminal data) ws)"






subsection \<open>Sample inputs\<close>

text \<open>
  Concrete inputs at which the properties below are evaluated. The API's answer carries
  the text \<^verbatim>\<open>{"itinerary":[]}\<close>; \<open>sample_parse\<close> is \<^verbatim>\<open>JSON.parse\<close> on
  that text. In \<open>sample_world\<close> every call succeeds.
\<close>

definition sample_jobId :: jobId where
  "sample_jobId = js ''V1StGXR8''"

definition sample_text :: jsstring where
  "sample_text = js ''{'' @ 0x22 # js ''itinerary'' @ 0x22 # js '':[]}''"

definition sample_result :: json where
  "sample_result =
     JObj [(js ''candidates'',
       JArr [JObj [(js ''content'',
         JObj [(js ''parts'', JArr [JObj [(js ''text'', JStr sample_text)]])])]])]"

definition sample_parse :: "jsstring \<Rightarrow> message + json" where
  "sample_parse s =
     (if s = sample_text then Inr (JObj [(js ''itinerary'', JArr [])])
      else Inl (Thrown (js ''Unexpected token'')))"

definition sample_world :: world where
  "sample_world =
     \<lparr>gemini = (\<lambda>k. Returns \<lparr>status = 200, json_body = Inr sample_result\<rparr>),
      JSON_parse = sample_parse,
      toNumber = (\<lambda>v. Inr NaN),
      firestore = (\<lambda>k. None),
      clock = (\<lambda>k. 1000 + k)\<rparr>"

definition sample_request :: request where
  "sample_request =
     \<lparr>http_method = ''POST'', pathname = ''/api'',
      req_json = Inr (JObj [(js ''destination'', JStr (js ''Paris'')),
                             (js ''durationDays'', JNum (Num 3))])\<rparr>"

text \<open>
  Worlds in which something fails: the store rejects the second write; the network is
  down; the network is down and the store rejects every write after the first; the
  second write is applied by the store but reading its reply
  (\<^verbatim>\<open>await res.text()\<close>) fails, so that \<^verbatim>\<open>writeToFirestore\<close> throws; the
  API answers 503 once and 200 from then on.
\<close>

definition world_completed_write_fails :: world where
  "world_completed_write_fails =
     sample_world\<lparr>firestore := (\<lambda>k. if k = 1 then Some (Thrown (js ''Firestore error: 503'')) else None)\<rparr>"

definition world_network_down :: world where
  "world_network_down = sample_world\<lparr>gemini := (\<lambda>k. Throws (Thrown (js ''fetch failed'')))\<rparr>"

definition world_all_down :: world where
  "world_all_down =
     world_network_down\<lparr>firestore := (\<lambda>k. if k = 0 then None else Some (Thrown (js ''Firestore error: 503'')))\<rparr>"


definition world_503_then_200 :: world where
  "world_503_then_200 =
     sample_world\<lparr>gemini := (\<lambda>k. if k = 0 then Returns \<lparr>status = 503, json_body = Inr JNull\<rparr>
                                   else Returns \<lparr>status = 200, json_body = Inr sample_result\<rparr>)\<rparr>"

text \<open>
  An answer in a fenced block whose day and activity carry keys outside the schema
  (\<^verbatim>\<open>notes\<close>, \<^verbatim>\<open>cost\<close>): the text, its parsed value, and the days the
  validator returns for it.
\<close>

definition quoted :: "string \<Rightarrow> jsstring" where
  "quoted s = 0x22 # js s @ [0x22]"

definition rich_text :: jsstring where
  "rich_text =
     js ''{'' @ quoted ''itinerary'' @ js '':[{'' @ quoted ''day'' @ js '':1,'' @ quoted ''theme'' @ js '':''
     @ quoted ''Art'' @ js '','' @ quoted ''notes'' @ js '':'' @ quoted ''cash'' @ js '',''
     @ quoted ''activities'' @ js '':[{'' @ quoted ''time'' @ js '':'' @ quoted ''9:00'' @ js '',''
     @ quoted ''description'' @ js '':'' @ quoted ''Visit'' @ js '','' @ quoted ''location'' @ js '':''
     @ quoted ''Louvre'' @ js '','' @ quoted ''cost'' @ js '':20}]}]}''"

definition rich_generated :: json where
  "rich_generated =
     JObj [(js ''itinerary'', JArr [JObj
       [(js ''day'', JNum (Num 1)),
        (js ''theme'', JStr (js ''Art'')),
        (js ''notes'', JStr (js ''cash'')),
        (js ''activities'', JArr [JObj
          [(js ''time'', JStr (js ''9:00'')),
           (js ''description'', JStr (js ''Visit'')),
           (js ''location'', JStr (js ''Louvre'')),
           (js ''cost'', JNum (Num 20))]])]])]"

definition rich_days :: "json list" where
  "rich_days =
     [JObj
       [(js ''day'', JNum (Num 1)),
        (js ''theme'', JStr (js ''Art'')),
        (js ''activities'', JArr [JObj
          [(js ''time'', JStr (js ''9:00'')),
           (js ''description'', JStr (js ''Visit'')),
           (js ''location'', JStr (js ''Louvre''))]])]]"

definition rich_result :: json where
  "rich_result =
     JObj [(js ''candidates'',
         JArr [JObj [(js ''content'',
           JObj [(js ''parts'', JArr [JObj [(js ''text'', JStr (fenced (js ''json'') rich_text))]])])]])]"

definition rich_world :: world where
  "rich_world =
     sample_world\<lparr>
       gemini := (\<lambda>k. Returns \<lparr>status = 200, json_body = Inr rich_result\<rparr>),
       JSON_parse := (\<lambda>s. if s = rich_text then Inr rich_generated else Inl (Thrown (js ''Unexpected token'')))\<rparr>"

section \<open>Properties\<close>

subsection \<open>Retry policy\<close>

text \<open>
  C5. With the default policy (3 retries, 500 ms initial delay): when the wrapped function
  throws on its first three calls and returns on the fourth, the call sleeps exactly the
  three delays 500, 1000, 2000 (each twice the previous) and returns that success; when
  it throws on all four calls, the call sleeps the same three delays and then throws the
  error of the fourth (last) call, with no result.
\<close>

theorem retryWithBackoff_default_timing:
  "(fn 0 = Throws e0 \<and> fn 1 = Throws e1 \<and> fn 2 = Throws e2 \<and> fn 3 = Returns v
      \<longrightarrow> retryWithBackoff_default fn = (Returns v, [500, 1000, 2000]))
   \<and> (fn 0 = Throws e0 \<and> fn 1 = Throws e1 \<and> fn 2 = Throws e2 \<and> fn 3 = Throws e3
      \<longrightarrow> retryWithBackoff_default fn = (Throws e3, [500, 1000, 2000]))"
  by (simp add: retryWithBackoff_default_def numeral_2_eq_2 numeral_3_eq_3)

theorem retryWithBackoff_default_timing_witness:
  "retryWithBackoff_default (\<lambda>k. if k < 3 then Throws k else (Returns True :: (bool, nat) attempt))
     = (Returns True, [500, 1000, 2000])
   \<and> retryWithBackoff_default (\<lambda>k. (Throws (10 + k) :: (bool, nat) attempt))
     = (Throws 13, [500, 1000, 2000])"
  using retryWithBackoff_default_timing
    [of "\<lambda>k. if k < 3 then Throws k else (Returns True :: (bool, nat) attempt)" 0 1 2 True 3]
    retryWithBackoff_default_timing
    [of "\<lambda>k. (Throws (10 + k) :: (bool, nat) attempt)" 10 11 12 False 13]
  by simp

subsection \<open>Lines, trimming and fences\<close>

lemma fence_js: "fence = js ''```''" by (simp add: fence_def js_def)

lemma split_lines_nonempty: "split_lines s \<noteq> []"
  by (induction s) (auto split: list.splits)

lemma split_lines_append: "split_lines (a @ LF # b) = split_lines a @ split_lines b"
proof (induction a)
  case Nil then show ?case by simp
next
  case (Cons c a)
  obtain l ls where sp: "split_lines a = l # ls"
    using split_lines_nonempty [of a] by (cases "split_lines a") auto
  with Cons show ?case by simp
qed

lemma split_lines_no_LF: "LF \<notin> set a \<Longrightarrow> split_lines a = [a]"
  by (induction a) auto

lemma split_lines_cons_line: "LF \<notin> set a \<Longrightarrow> split_lines (a @ LF # b) = a # split_lines b"
  by (induction a) auto

lemma join_split_lines: "join_lines (split_lines s) = s"
proof (induction s)
  case Nil then show ?case by simp
next
  case (Cons c cs)
  obtain l ls where sp: "split_lines cs = l # ls"
    using split_lines_nonempty [of cs] by (cases "split_lines cs") auto
  show ?case
  proof (cases "c = LF")
    case True
    with Cons sp show ?thesis by simp
  next
    case False
    with Cons sp show ?thesis by (cases ls) auto
  qed
qed

lemma split_join_lines:
  "ls \<noteq> [] \<Longrightarrow> (\<forall>l \<in> set ls. LF \<notin> set l) \<Longrightarrow> split_lines (join_lines ls) = ls"
proof (induction ls rule: join_lines.induct)
  case 1 then show ?case by simp
next
  case (2 l) then show ?case by (simp add: split_lines_no_LF)
next
  case (3 l v va)
  then show ?case by (simp add: split_lines_cons_line)
qed

lemma dropWhile_hd_id: "s \<noteq> [] \<Longrightarrow> \<not> P (hd s) \<Longrightarrow> dropWhile P s = s"
  by (cases s) auto

lemma trim_id: "s \<noteq> [] \<Longrightarrow> \<not> isWhiteSpace (hd s) \<Longrightarrow> \<not> isWhiteSpace (last s) \<Longrightarrow> trim s = s"
  by (simp add: trim_def dropWhile_hd_id hd_rev)

lemma fenced_clean: "LF \<notin> set tag \<Longrightarrow> cleanRawText (fenced tag C) = trim C"
proof -
  assume t: "LF \<notin> set tag"
  let ?raw = "fenced tag C"
  have ne: "?raw \<noteq> []" by (simp add: fenced_def fence_def)
  have h: "\<not> isWhiteSpace (hd ?raw)" by (simp add: fenced_def fence_def isWhiteSpace_def)
  have l: "\<not> isWhiteSpace (last ?raw)" by (simp add: fenced_def fence_def isWhiteSpace_def)
  have tr: "trim ?raw = ?raw" using ne h l by (rule trim_id)
  have sw: "startsWith ?raw fence" by (simp add: startsWith_def fenced_def fence_def)
  have nf: "LF \<notin> set (fence @ tag)" using t by (simp add: fence_def LF_def)
  have "split_lines ?raw = (fence @ tag) # split_lines (C @ LF # fence)"
    using split_lines_cons_line [OF nf, of "C @ LF # fence"] by (simp add: fenced_def)
  also have "split_lines (C @ LF # fence) = split_lines C @ [fence]"
  proof -
    have "LF \<notin> set fence" by (simp add: fence_def LF_def)
    then show ?thesis by (simp add: split_lines_append split_lines_no_LF)
  qed
  finally have sp: "split_lines ?raw = (fence @ tag) # split_lines C @ [fence]" .
  show ?thesis
    by (simp add: cleanRawText_def stripFences_def tr sw sp Let_def join_split_lines split_lines_nonempty Suc_le_eq)
qed

lemma startsWith_append: "startsWith a p \<Longrightarrow> startsWith (a @ b) p"
proof -
  assume h: "startsWith a p"
  then have "length (take (length p) a) = length p"
    by (simp add: startsWith_def)
  then have "length p \<le> length a"
    by simp
  with h show ?thesis by (simp add: startsWith_def)
qed

lemma clean_open_fence:
  assumes t: "trim raw = join_lines (first # middle @ [final])"
    and sw: "startsWith first fence" and m: "middle \<noteq> []"
    and nf: "LF \<notin> set first" and nm: "\<forall>l \<in> set middle. LF \<notin> set l" and nl: "LF \<notin> set final"
  shows "cleanRawText raw = trim (join_lines middle)"
proof -
  let ?ls = "first # middle @ [final]"
  have sp: "split_lines (trim raw) = ?ls"
    unfolding t using nf nm nl by (intro split_join_lines) auto
  obtain x xs where mx: "middle @ [final] = x # xs" by (cases "middle @ [final]") auto
  have "join_lines ?ls = first @ LF # join_lines (middle @ [final])"
    by (simp add: mx)
  then have "startsWith (trim raw) fence"
    using sw t by (simp add: startsWith_append)
  moreover have "3 \<le> length ?ls" using m by (cases middle) auto
  ultimately show ?thesis
    by (simp add: cleanRawText_def stripFences_def sp Let_def butlast_append)
qed

text \<open>
  C7. A raw text made of an opening fence line (three backticks, optionally followed by a
  language tag), the content \<open>C\<close> and a closing fence line of three backticks is
  cleaned to the trimmed content, so it is parsed exactly as the unfenced content is:
  whatever the parser, the fenced text yields the parser's value on \<open>trim C\<close>, which
  is what the pipeline parses for the unfenced \<open>C\<close> (a valid JSON text never begins
  with a backtick) and is the value of \<open>C\<close> itself for a parser that ignores
  surrounding white space, as \<^verbatim>\<open>JSON.parse\<close> does on a valid text.
\<close>

theorem fenced_content_parsed_as_unfenced:
  "LF \<notin> set tag \<Longrightarrow>
     parseGenerated P (fenced tag C) = P (trim C)
     \<and> (\<not> startsWith (trim C) fence \<longrightarrow> parseGenerated P (fenced tag C) = parseGenerated P C)
     \<and> (P (trim C) = P C \<longrightarrow> parseGenerated P (fenced tag C) = P C)"
proof -
  assume t: "LF \<notin> set tag"
  have "\<not> startsWith (trim C) fence \<Longrightarrow> cleanRawText C = trim C"
    by (simp add: cleanRawText_def stripFences_def)
  then show ?thesis
    by (simp add: parseGenerated_def fenced_clean [OF t])
qed

theorem fenced_content_parsed_as_unfenced_witness:
  "LF \<notin> set (js ''json'')
   \<and> \<not> startsWith (trim (js ''[1]'')) fence
   \<and> parseGenerated (\<lambda>s. if s = js ''[1]'' then Inr (1::nat) else Inl ()) (fenced (js ''json'') (js ''[1]''))
       = Inr 1
   \<and> parseGenerated (\<lambda>s. if s = js ''[1]'' then Inr (1::nat) else Inl ()) (fenced [] (js '' [1]''))
       = Inr 1
   \<and> parseGenerated (\<lambda>s. if s = js ''[1]'' then Inr (1::nat) else Inl ()) (js ''[1]'') = Inr 1"
proof -
  have t: "LF \<notin> set (js ''json'')" and e: "LF \<notin> set []" by (simp_all add: js_def LF_def)
  have tr: "trim (js ''[1]'') = js ''[1]''" "trim (js '' [1]'') = js ''[1]''"
    by (simp_all add: trim_def js_def isWhiteSpace_def)
  have ns: "\<not> startsWith (js ''[1]'') fence"
    by (simp add: startsWith_def js_def fence_def)
  show ?thesis
    using fenced_content_parsed_as_unfenced [OF t, of "\<lambda>s. if s = js ''[1]'' then Inr (1::nat) else Inl ()" "js ''[1]''"]
      fenced_content_parsed_as_unfenced [OF e, of "\<lambda>s. if s = js ''[1]'' then Inr (1::nat) else Inl ()" "js '' [1]''"]
      t tr ns
    by (simp add: parseGenerated_def cleanRawText_def stripFences_def)
qed

text \<open>
  C9. Fence stripping happens only when the trimmed text starts with three backticks and
  has at least three lines: a text that does not start with the fence, and a text of
  fewer than three lines, are parsed as they are after trimming. When it happens, the
  first and the last line are removed whatever the last line is: of the lines
  \<open>first # middle @ [final]\<close> only \<open>middle\<close> is kept, so a text that opens a
  fence and never closes it loses its final content line.
\<close>

theorem fence_stripping_trigger:
  "(\<not> startsWith (trim raw) fence \<longrightarrow> cleanRawText raw = trim raw)
   \<and> (length (split_lines (trim raw)) < 3 \<longrightarrow>
        cleanRawText raw = trim raw \<and> parseGenerated P raw = P (trim raw))
   \<and> (trim raw = join_lines (first # middle @ [final]) \<and> startsWith first fence \<and> middle \<noteq> []
        \<and> LF \<notin> set first \<and> (\<forall>l \<in> set middle. LF \<notin> set l) \<and> LF \<notin> set final \<longrightarrow>
        cleanRawText raw = trim (join_lines middle)
        \<and> parseGenerated P raw = P (trim (join_lines middle)))"
  using clean_open_fence [of raw first middle final]
  by (simp add: parseGenerated_def cleanRawText_def stripFences_def)

theorem fence_stripping_trigger_witness:
  "\<not> startsWith (trim (js ''[1]'')) fence \<and> cleanRawText (js ''[1]'') = js ''[1]''
   \<and> length (split_lines (trim (fence @ js ''[1]'' @ LF # fence))) < 3
   \<and> cleanRawText (fence @ js ''[1]'' @ LF # fence) = fence @ js ''[1]'' @ LF # fence
   \<and> trim (fence @ js ''json'' @ LF # js ''[1]'' @ LF # js ''[2]'')
       = join_lines ((fence @ js ''json'') # [js ''[1]''] @ [js ''[2]''])
   \<and> cleanRawText (fence @ js ''json'' @ LF # js ''[1]'' @ LF # js ''[2]'') = js ''[1]''"
proof -
  let ?a = "js ''[1]''" and ?b = "fence @ js ''[1]'' @ LF # fence"
  let ?c = "fence @ js ''json'' @ LF # js ''[1]'' @ LF # js ''[2]''"
  have ta: "trim ?a = ?a" and tb: "trim ?b = ?b" and tc: "trim ?c = ?c"
    by (simp_all add: trim_def js_def fence_def LF_def isWhiteSpace_def)
  have a: "\<not> startsWith (trim ?a) fence"
    by (simp add: ta) (simp add: startsWith_def js_def fence_def)
  have b: "length (split_lines (trim ?b)) < 3"
    by (simp add: tb) (simp add: js_def fence_def LF_def)
  have c: "trim ?c = join_lines ((fence @ js ''json'') # [js ''[1]''] @ [js ''[2]''])"
    by (simp add: tc)
  have c': "startsWith (fence @ js ''json'') fence \<and> [js ''[1]''] \<noteq> []
      \<and> LF \<notin> set (fence @ js ''json'') \<and> (\<forall>l \<in> set [js ''[1]'']. LF \<notin> set l)
      \<and> LF \<notin> set (js ''[2]'')"
    by (simp add: startsWith_def js_def fence_def LF_def)
  have tr1: "trim (join_lines [js ''[1]'']) = js ''[1]''"
    using ta by simp
  from fence_stripping_trigger [of ?a "\<lambda>s. (Inr s :: unit + jsstring)" "[]" "[]" "[]"] a ta
  have 1: "cleanRawText ?a = ?a" by simp
  from fence_stripping_trigger [of ?b "\<lambda>s. (Inr s :: unit + jsstring)" "[]" "[]" "[]"] b tb
  have 2: "cleanRawText ?b = ?b" by simp
  from fence_stripping_trigger [of ?c "\<lambda>s. (Inr s :: unit + jsstring)" "fence @ js ''json''" "[js ''[1]'']" "js ''[2]''"] c c' tr1
  have 3: "cleanRawText ?c = js ''[1]''" by simp
  show ?thesis by (intro conjI) (fact a, fact 1, fact b, fact 2, fact c, fact 3)
qed

subsection \<open>Schema validation\<close>

lemma collect_Inl:
  "Inl es \<in> set rs \<Longrightarrow> \<exists>all. collect rs = Inl all \<and> set es \<subseteq> set all"
proof (induction rs)
  case Nil then show ?case by simp
next
  case (Cons r rs)
  show ?case
  proof (cases "r = Inl es")
    case True
    then show ?thesis by (cases "collect rs") auto
  next
    case False
    with Cons.prems have "Inl es \<in> set rs" by simp
    from Cons.IH [OF this] obtain all where "collect rs = Inl all" "set es \<subseteq> set all" by blast
    then show ?thesis by (cases r) auto
  qed
qed


lemma parse_undefined: "\<exists>e. parse s p None = Inl [Issue p e None]"
  by (cases s) simp_all

lemma parse_ZObject_field:
  assumes "(k, s) \<in> set shape" and "parse s (p @ [Key k]) (map_of kvs k) = Inl es"
  shows "\<exists>all. parse (ZObject shape) p (Some (JObj kvs)) = Inl all \<and> set es \<subseteq> set all"
proof -
  have "Inl es \<in> set (map (\<lambda>(k, s). parse s (p @ [Key k]) (map_of kvs k)) shape)"
    using assms by force
  from collect_Inl [OF this] show ?thesis by auto
qed

lemma parse_ZArray_element:
  assumes "i < length xs" and "parse s (p @ [Idx i]) (Some (xs ! i)) = Inl es"
  shows "\<exists>all. parse (ZArray s) p (Some (JArr xs)) = Inl all \<and> set es \<subseteq> set all"
proof -
  have "(i, xs ! i) \<in> set (enumerate 0 xs)"
    using assms(1) by (simp add: in_set_enumerate_eq)
  then have "Inl es \<in> set (map (\<lambda>(i, x). parse s (p @ [Idx i]) (Some x)) (enumerate 0 xs))"
    using assms(2) by force
  from collect_Inl [OF this] show ?thesis by auto
qed

lemma parse_ZObject_missing:
  assumes "(k, s) \<in> set shape" and "map_of kvs k = None"
  shows "\<exists>all e. parse (ZObject shape) p (Some (JObj kvs)) = Inl all \<and> Issue (p @ [Key k]) e None \<in> set all"
proof -
  obtain e where "parse s (p @ [Key k]) (map_of kvs k) = Inl [Issue (p @ [Key k]) e None]"
    using parse_undefined [of s "p @ [Key k]"] assms(2) by auto
  from parse_ZObject_field [OF assms(1) this] show ?thesis by auto
qed

lemma itinerarySchema_unfold:
  "itinerarySchema = ZObject [(js ''itinerary'', ZArray (ZObject dayShape))]"
  by (simp add: itinerarySchema_def dayShape_def activityShape_def)

lemma day_keys: "k \<in> {js ''day'', js ''theme'', js ''activities''} \<Longrightarrow> \<exists>s. (k, s) \<in> set dayShape"
  by (auto simp: dayShape_def)

lemma activity_keys:
  "k \<in> {js ''time'', js ''description'', js ''location''} \<Longrightarrow> \<exists>s. (k, s) \<in> set activityShape"
  by (auto simp: activityShape_def)

lemma reject_top:
  assumes "map_of obj (js ''itinerary'') = None"
  shows "\<exists>issues e. safeParse itinerarySchema (JObj obj) = Inl issues
           \<and> Issue [Key (js ''itinerary'')] e None \<in> set issues"
  using parse_ZObject_missing [of "js ''itinerary''" "ZArray (ZObject dayShape)" _ obj "[]"] assms
  by (simp add: safeParse_def itinerarySchema_unfold)

lemma reject_via_day:
  assumes obj: "map_of obj (js ''itinerary'') = Some (JArr days)"
    and i: "i < length days"
    and d: "parse (ZObject dayShape) [Key (js ''itinerary''), Idx i] (Some (days ! i)) = Inl es"
  shows "\<exists>issues. safeParse itinerarySchema (JObj obj) = Inl issues \<and> set es \<subseteq> set issues"
proof -
  from parse_ZArray_element [of i days "ZObject dayShape" "[Key (js ''itinerary'')]" es] i d
  obtain all1 where a1: "parse (ZArray (ZObject dayShape)) [Key (js ''itinerary'')] (Some (JArr days)) = Inl all1"
    and s1: "set es \<subseteq> set all1" by auto
  from parse_ZObject_field [of "js ''itinerary''" "ZArray (ZObject dayShape)"
      "[(js ''itinerary'', ZArray (ZObject dayShape))]" "[]" obj all1] a1 obj
  obtain all2 where "parse (ZObject [(js ''itinerary'', ZArray (ZObject dayShape))]) [] (Some (JObj obj)) = Inl all2"
    and "set all1 \<subseteq> set all2" by auto
  with s1 show ?thesis by (auto simp: safeParse_def itinerarySchema_unfold)
qed

lemma reject_day:
  assumes obj: "map_of obj (js ''itinerary'') = Some (JArr days)"
    and i: "i < length days" and d: "days ! i = JObj d"
    and k: "k \<in> {js ''day'', js ''theme'', js ''activities''}" and m: "map_of d k = None"
  shows "\<exists>issues e. safeParse itinerarySchema (JObj obj) = Inl issues
           \<and> Issue [Key (js ''itinerary''), Idx i, Key k] e None \<in> set issues"
proof -
  from day_keys [OF k] obtain s where "(k, s) \<in> set dayShape" ..
  from parse_ZObject_missing [OF this m, of "[Key (js ''itinerary''), Idx i]"]
  obtain es e where "parse (ZObject dayShape) [Key (js ''itinerary''), Idx i] (Some (JObj d)) = Inl es"
    and e: "Issue [Key (js ''itinerary''), Idx i, Key k] e None \<in> set es" by auto
  with d have "parse (ZObject dayShape) [Key (js ''itinerary''), Idx i] (Some (days ! i)) = Inl es" by simp
  from reject_via_day [OF obj i this] e show ?thesis by blast
qed

lemma reject_activity:
  assumes obj: "map_of obj (js ''itinerary'') = Some (JArr days)"
    and i: "i < length days" and d: "days ! i = JObj d"
    and acts: "map_of d (js ''activities'') = Some (JArr acts)"
    and j: "j < length acts" and a: "acts ! j = JObj a"
    and k: "k \<in> {js ''time'', js ''description'', js ''location''}" and m: "map_of a k = None"
  shows "\<exists>issues e. safeParse itinerarySchema (JObj obj) = Inl issues
           \<and> Issue [Key (js ''itinerary''), Idx i, Key (js ''activities''), Idx j, Key k] e None \<in> set issues"
proof -
  let ?p = "[Key (js ''itinerary''), Idx i]"
  from activity_keys [OF k] obtain s where "(k, s) \<in> set activityShape" ..
  from parse_ZObject_missing [OF this m, of "?p @ [Key (js ''activities''), Idx j]"]
  obtain es e where "parse (ZObject activityShape) (?p @ [Key (js ''activities''), Idx j]) (Some (JObj a)) = Inl es"
    and e: "Issue [Key (js ''itinerary''), Idx i, Key (js ''activities''), Idx j, Key k] e None \<in> set es" by auto
  with a have "parse (ZObject activityShape) ((?p @ [Key (js ''activities'')]) @ [Idx j]) (Some (acts ! j)) = Inl es"
    by simp
  from parse_ZArray_element [OF j this]
  obtain all1 where a1: "parse (ZArray (ZObject activityShape)) (?p @ [Key (js ''activities'')]) (Some (JArr acts)) = Inl all1"
    and s1: "set es \<subseteq> set all1" by auto
  have "(js ''activities'', ZArray (ZObject activityShape)) \<in> set dayShape"
    by (simp add: dayShape_def)
  from parse_ZObject_field [OF this, of ?p d all1] a1 acts
  obtain all2 where "parse (ZObject dayShape) ?p (Some (JObj d)) = Inl all2" and s2: "set all1 \<subseteq> set all2"
    by auto
  with d have "parse (ZObject dayShape) ?p (Some (days ! i)) = Inl all2" by simp
  from reject_via_day [OF obj i this] e s1 s2 show ?thesis by blast
qed










text \<open>
  C8. The validator rejects an object without the key \<^verbatim>\<open>itinerary\<close>, an
  itinerary whose \<open>i\<close>-th element is an object without one of \<^verbatim>\<open>day\<close>,
  \<^verbatim>\<open>theme\<close>, \<^verbatim>\<open>activities\<close>, and an itinerary in which the \<open>j\<close>-th
  activity of the \<open>i\<close>-th day is an object without one of \<^verbatim>\<open>time\<close>,
  \<^verbatim>\<open>description\<close>, \<^verbatim>\<open>location\<close>; in each case the issues reported
  include one whose path is exactly the path of the missing field (received:
  \<^verbatim>\<open>undefined\<close>).
\<close>

theorem itinerarySchema_rejects_missing_fields:
  "(map_of obj (js ''itinerary'') = None \<longrightarrow>
      (\<exists>issues e. safeParse itinerarySchema (JObj obj) = Inl issues
         \<and> Issue [Key (js ''itinerary'')] e None \<in> set issues))
   \<and> (map_of obj (js ''itinerary'') = Some (JArr days) \<and> i < length days \<and> days ! i = JObj d
        \<and> k \<in> {js ''day'', js ''theme'', js ''activities''} \<and> map_of d k = None \<longrightarrow>
      (\<exists>issues e. safeParse itinerarySchema (JObj obj) = Inl issues
         \<and> Issue [Key (js ''itinerary''), Idx i, Key k] e None \<in> set issues))
   \<and> (map_of obj (js ''itinerary'') = Some (JArr days) \<and> i < length days \<and> days ! i = JObj d
        \<and> map_of d (js ''activities'') = Some (JArr acts) \<and> j < length acts \<and> acts ! j = JObj a
        \<and> k' \<in> {js ''time'', js ''description'', js ''location''} \<and> map_of a k' = None \<longrightarrow>
      (\<exists>issues e. safeParse itinerarySchema (JObj obj) = Inl issues
         \<and> Issue [Key (js ''itinerary''), Idx i, Key (js ''activities''), Idx j, Key k'] e None
              \<in> set issues))"
proof (intro conjI impI)
  assume "map_of obj (js ''itinerary'') = None"
  then show "\<exists>issues e. safeParse itinerarySchema (JObj obj) = Inl issues
         \<and> Issue [Key (js ''itinerary'')] e None \<in> set issues"
    by (rule reject_top)
next
  assume "map_of obj (js ''itinerary'') = Some (JArr days) \<and> i < length days \<and> days ! i = JObj d
        \<and> k \<in> {js ''day'', js ''theme'', js ''activities''} \<and> map_of d k = None"
  then show "\<exists>issues e. safeParse itinerarySchema (JObj obj) = Inl issues
         \<and> Issue [Key (js ''itinerary''), Idx i, Key k] e None \<in> set issues"
    by (elim conjE) (rule reject_day)
next
  assume "map_of obj (js ''itinerary'') = Some (JArr days) \<and> i < length days \<and> days ! i = JObj d
        \<and> map_of d (js ''activities'') = Some (JArr acts) \<and> j < length acts \<and> acts ! j = JObj a
        \<and> k' \<in> {js ''time'', js ''description'', js ''location''} \<and> map_of a k' = None"
  then show "\<exists>issues e. safeParse itinerarySchema (JObj obj) = Inl issues
         \<and> Issue [Key (js ''itinerary''), Idx i, Key (js ''activities''), Idx j, Key k'] e None
              \<in> set issues"
    by (elim conjE) (rule reject_activity)
qed

theorem itinerarySchema_rejects_missing_fields_witness:
  "map_of [] (js ''itinerary'') = (None :: json option)
   \<and> (\<exists>issues e. safeParse itinerarySchema (JObj []) = Inl issues
         \<and> Issue [Key (js ''itinerary'')] e None \<in> set issues)
   \<and> map_of sample_day (js ''theme'') = None
   \<and> (\<exists>issues e. safeParse itinerarySchema (JObj [(js ''itinerary'', JArr [JObj sample_day])]) = Inl issues
         \<and> Issue [Key (js ''itinerary''), Idx 0, Key (js ''theme'')] e None \<in> set issues)
   \<and> map_of sample_activity (js ''description'') = None
   \<and> (\<exists>issues e. safeParse itinerarySchema (JObj [(js ''itinerary'', JArr [JObj sample_day])]) = Inl issues
         \<and> Issue [Key (js ''itinerary''), Idx 0, Key (js ''activities''), Idx 0, Key (js ''description'')] e None
              \<in> set issues)"
proof -
  let ?obj = "[(js ''itinerary'', JArr [JObj sample_day])]"
  have h1: "map_of [] (js ''itinerary'') = (None :: json option)" by simp
  have h2: "map_of ?obj (js ''itinerary'') = Some (JArr [JObj sample_day])" by simp
  have h3: "map_of sample_day (js ''theme'') = None"
    by (simp add: sample_day_def js_def)
  have h4: "map_of sample_day (js ''activities'') = Some (JArr [JObj sample_activity])"
    by (simp add: sample_day_def js_def)
  have h5: "map_of sample_activity (js ''description'') = None"
    by (simp add: sample_activity_def js_def)
  note t1 = itinerarySchema_rejects_missing_fields
      [of "[]" "[]" 0 "[]" "js ''day''" "[]" 0 "[]" "js ''time''"]
  note t2 = itinerarySchema_rejects_missing_fields
      [of ?obj "[JObj sample_day]" 0 sample_day "js ''theme''" "[JObj sample_activity]" 0 sample_activity "js ''description''"]
  have c1: "\<exists>issues e. safeParse itinerarySchema (JObj []) = Inl issues
         \<and> Issue [Key (js ''itinerary'')] e None \<in> set issues"
    by (rule t1 [THEN conjunct1, THEN mp, OF h1])
  have p2: "map_of ?obj (js ''itinerary'') = Some (JArr [JObj sample_day]) \<and> 0 < length [JObj sample_day]
      \<and> [JObj sample_day] ! 0 = JObj sample_day
      \<and> js ''theme'' \<in> {js ''day'', js ''theme'', js ''activities''} \<and> map_of sample_day (js ''theme'') = None"
    using h2 h3 by simp
  have p3: "map_of ?obj (js ''itinerary'') = Some (JArr [JObj sample_day]) \<and> 0 < length [JObj sample_day]
      \<and> [JObj sample_day] ! 0 = JObj sample_day
      \<and> map_of sample_day (js ''activities'') = Some (JArr [JObj sample_activity])
      \<and> 0 < length [JObj sample_activity] \<and> [JObj sample_activity] ! 0 = JObj sample_activity
      \<and> js ''description'' \<in> {js ''time'', js ''description'', js ''location''}
      \<and> map_of sample_activity (js ''description'') = None"
    using h2 h4 h5 by simp
  have c2: "\<exists>issues e. safeParse itinerarySchema (JObj ?obj) = Inl issues
         \<and> Issue [Key (js ''itinerary''), Idx 0, Key (js ''theme'')] e None \<in> set issues"
    by (rule t2 [THEN conjunct2, THEN conjunct1, THEN mp, OF p2])
  have c3: "\<exists>issues e. safeParse itinerarySchema (JObj ?obj) = Inl issues
         \<and> Issue [Key (js ''itinerary''), Idx 0, Key (js ''activities''), Idx 0, Key (js ''description'')] e None
              \<in> set issues"
    by (rule t2 [THEN conjunct2, THEN conjunct2, THEN mp, OF p3])
  show ?thesis by (intro conjI) (fact h1, fact c1, fact h3, fact c2, fact h5, fact c3)
qed

subsection \<open>The background task\<close>

lemma extract_sample: "extractText sample_result = Inr sample_text"
  by (simp add: extractText_def sample_result_def andThen_def)

lemma clean_sample: "cleanRawText sample_text = sample_text"
proof -
  have "trim sample_text = sample_text"
    by (simp add: sample_text_def trim_def js_def isWhiteSpace_def)
  moreover have "\<not> startsWith sample_text fence"
    by (simp add: sample_text_def startsWith_def fence_def js_def)
  ultimately show ?thesis by (simp add: cleanRawText_def stripFences_def)
qed

lemma validate_sample: "safeParse itinerarySchema (JObj [(js ''itinerary'', JArr [])]) = Inr (JObj [(js ''itinerary'', JArr [])])"
  by (simp add: safeParse_def itinerarySchema_def)

lemma generate_sample:
  assumes "gemini w 0 = Returns \<lparr>status = 200, json_body = Inr sample_result\<rparr>"
    and "JSON_parse w = sample_parse"
  shows "generate w = (Inr (JObj [(js ''itinerary'', JArr [])]), [])"
  using assms
  by (simp add: generate_def retryWithBackoff_default_def numeral_3_eq_3 ok_def andThen_def
      extract_sample parseGenerated_def clean_sample sample_parse_def validate_sample)

lemma trim_rich: "trim rich_text = rich_text"
  by (rule trim_id) (simp_all add: rich_text_def js_def quoted_def isWhiteSpace_def)

lemma clean_rich: "cleanRawText (fenced (js ''json'') rich_text) = rich_text"
proof -
  have "LF \<notin> set (js ''json'')" by (simp add: js_def LF_def)
  from fenced_clean [OF this] show ?thesis by (simp add: trim_rich)
qed

lemma validate_rich: "safeParse itinerarySchema rich_generated = Inr (JObj [(js ''itinerary'', JArr rich_days)])"
  by (simp add: safeParse_def itinerarySchema_def rich_generated_def rich_days_def js_def enumerate_eq_zip)

lemma generate_rich: "generate rich_world = (Inr (JObj [(js ''itinerary'', JArr rich_days)]), [])"
  by (simp add: generate_def retryWithBackoff_default_def numeral_3_eq_3 ok_def andThen_def
      rich_world_def rich_result_def sample_world_def extractText_def parseGenerated_def clean_rich
      validate_rich)

lemma generate_network_down:
  "(\<And>k. k \<le> 3 \<Longrightarrow> gemini w k = Throws (m k)) \<Longrightarrow> generate w = (Inl (m 3), [500, 1000, 2000])"
  by (simp add: generate_def retryWithBackoff_default_def numeral_3_eq_3)

lemma generate_not_ok:
  "gemini w 0 = Returns res \<Longrightarrow> \<not> ok res \<Longrightarrow> generate w = (Inl (GeminiFailed (status res)), [])"
  by (simp add: generate_def retryWithBackoff_default_def numeral_3_eq_3)

lemma generate_failure_kinds:
  assumes "gemini w 0 = Returns res" and "ok res"
  shows "(json_body res = Inl e \<longrightarrow> generate w = (Inl e, []))
    \<and> (json_body res = Inr result \<and> extractText result = Inl e \<longrightarrow> generate w = (Inl e, []))
    \<and> (json_body res = Inr result \<and> extractText result = Inr raw
         \<and> parseGenerated (JSON_parse w) raw = Inl e \<longrightarrow> generate w = (Inl e, []))
    \<and> (json_body res = Inr result \<and> extractText result = Inr raw
         \<and> parseGenerated (JSON_parse w) raw = Inr generated
         \<and> safeParse itinerarySchema generated = Inl issues \<longrightarrow>
           generate w = (Inl (ValidationError issues), []))"
  using assms
  by (simp add: generate_def retryWithBackoff_default_def numeral_3_eq_3 andThen_def)



lemma task_fail:
  assumes "generate w = (Inl err, ds)"
  shows "generateItineraryAsync w ws jobId d n =
     \<lparr>rejected = firestore w (length ws),
      writes = ws @ [(jobId, [(''status'', VStatus failed), (''error'', VMessage err),
                               (''completedAt'', VTime (clock w (length ws)))])],
      delays = ds\<rparr>"
  using assms by (simp add: generateItineraryAsync_def catch_block_def writeToFirestore_def)

lemma task_completed:
  assumes "generate w = (Inr data, ds)" and "firestore w (length ws) = None"
  shows "generateItineraryAsync w ws jobId d n =
     \<lparr>rejected = None,
      writes = ws @ [(jobId, [(''status'', VStatus completed), (''itinerary'', member_of data (js ''itinerary'')),
                               (''completedAt'', VTime (clock w (length ws)))])],
      delays = ds\<rparr>"
  using assms by (simp add: generateItineraryAsync_def writeToFirestore_def)

lemma task_completed_write_throws:
  assumes "generate w = (Inr data, ds)" and "firestore w (length ws) = Some e"
  shows "generateItineraryAsync w ws jobId d n =
     \<lparr>rejected = firestore w (Suc (length ws)),
      writes = ws @ [(jobId, [(''status'', VStatus completed), (''itinerary'', member_of data (js ''itinerary'')),
                               (''completedAt'', VTime (clock w (length ws)))]),
                     (jobId, [(''status'', VStatus failed), (''error'', VMessage e),
                               (''completedAt'', VTime (clock w (Suc (length ws))))])],
      delays = ds\<rparr>"
  using assms by (simp add: generateItineraryAsync_def catch_block_def writeToFirestore_def)

lemma createJob_sample:
  "firestore w 0 = None \<Longrightarrow>
   fetch w jobId sample_request =
     \<lparr>reply = Reply 202 (JobBody jobId),
      issued = [(jobId, [(''status'', VStatus processing),
                      (''destination'', VJson (JStr (js ''Paris''))),
                      (''durationDays'', VJson (JNum (Num 3))),
                      (''createdAt'', VTime (clock w 0)),
                      (''completedAt'', VNull),
                      (''itinerary'', VNull),
                      (''error'', VNull)])],
      background = Some (jobId, Some (JStr (js ''Paris'')), Some (JNum (Num 3)))\<rparr>"
  by (simp add: fetch_def sample_request_def createJob_def writeToFirestore_def js_def)

lemma lifecycle_sample:
  "firestore w 0 = None \<Longrightarrow>
   lifecycle w jobId sample_request =
     generateItineraryAsync w
       [(jobId, [(''status'', VStatus processing),
                      (''destination'', VJson (JStr (js ''Paris''))),
                      (''durationDays'', VJson (JNum (Num 3))),
                      (''createdAt'', VTime (clock w 0)),
                      (''completedAt'', VNull),
                      (''itinerary'', VNull),
                      (''error'', VNull)])]
       jobId (Some (JStr (js ''Paris''))) (Some (JNum (Num 3)))"
  by (simp add: lifecycle_def createJob_sample)


text \<open>
  C1. A network error, or any exception thrown by the call, is retried; a response that
  is not OK is not: \<^verbatim>\<open>fetch\<close> resolves with it, so the retry wrapper returns it
  at once and the check of \<^verbatim>\<open>response.ok\<close> that follows throws outside the
  wrapper. When the API answers 503 once and would answer 200 on the next call, the
  task makes one call, sleeps no delay and records the job as failed.
\<close>

theorem non_ok_response_is_not_retried:
  "generate world_503_then_200 = (Inl (GeminiFailed 503), [])
   \<and> lifecycle world_503_then_200 sample_jobId sample_request =
       \<lparr>rejected = None,
        writes =
          [(sample_jobId,
            [(''status'', VStatus processing),
             (''destination'', VJson (JStr (js ''Paris''))),
             (''durationDays'', VJson (JNum (Num 3))),
             (''createdAt'', VTime 1000),
             (''completedAt'', VNull),
             (''itinerary'', VNull),
             (''error'', VNull)]),
           (sample_jobId,
            [(''status'', VStatus failed),
             (''error'', VMessage (GeminiFailed 503)),
             (''completedAt'', VTime 1001)])],
        delays = []\<rparr>"
proof -
  let ?w = world_503_then_200
  have g: "generate ?w = (Inl (GeminiFailed 503), [])"
    using generate_not_ok [of ?w "\<lparr>status = 503, json_body = Inr JNull\<rparr>"]
    by (simp add: world_503_then_200_def sample_world_def ok_def)
  have f0: "firestore ?w 0 = None"
    by (simp add: world_503_then_200_def sample_world_def)
  show ?thesis
    by (simp add: g lifecycle_sample [OF f0] task_fail [OF g])
      (simp add: world_503_then_200_def sample_world_def)
qed

text \<open>
  C2, as stated, fails: when the pipeline succeeds and the completed write throws, the
  error is caught by the same \<^verbatim>\<open>catch\<close> block, which issues a second terminal
  write for the job.
\<close>

theorem two_terminal_writes_counterexample:
  "map (\<lambda>data. map_of data ''status'')
     (terminal_writes sample_jobId (writes (lifecycle world_completed_write_fails sample_jobId sample_request)))
   = [Some (VStatus completed), Some (VStatus failed)]"
proof -
  let ?w = world_completed_write_fails
  have g: "generate ?w = (Inr (JObj [(js ''itinerary'', JArr [])]), [])"
    by (rule generate_sample) (simp_all add: world_completed_write_fails_def sample_world_def)
  have f0: "firestore ?w 0 = None"
    by (simp add: world_completed_write_fails_def sample_world_def)
  have f1: "firestore ?w (length [x]) = Some (Thrown (js ''Firestore error: 503''))" for x :: store_write
    by (simp add: world_completed_write_fails_def sample_world_def)
  show ?thesis
    by (simp add: lifecycle_sample [OF f0] task_completed_write_throws [OF g f1]
        terminal_writes_def terminal_def)
qed

text \<open>
  C2, amended. After the writes \<open>ws\<close> already issued, the task issues exactly one
  terminal write when the pipeline fails (status failed) and when the completed write
  resolves (status completed); when the completed write itself throws, it issues a
  second terminal write, status failed, carrying that error. It issues at least one
  terminal write and never more than two.
\<close>

theorem task_terminal_writes:
  "(fst (generate w) = Inl err \<longrightarrow>
      writes (generateItineraryAsync w ws jobId d n) =
        ws @ [(jobId, [(''status'', VStatus failed), (''error'', VMessage err),
                       (''completedAt'', VTime (clock w (length ws)))])])
   \<and> (fst (generate w) = Inr data \<and> firestore w (length ws) = None \<longrightarrow>
      writes (generateItineraryAsync w ws jobId d n) =
        ws @ [(jobId, [(''status'', VStatus completed), (''itinerary'', member_of data (js ''itinerary'')),
                       (''completedAt'', VTime (clock w (length ws)))])])
   \<and> (fst (generate w) = Inr data \<and> firestore w (length ws) = Some e \<longrightarrow>
      writes (generateItineraryAsync w ws jobId d n) =
        ws @ [(jobId, [(''status'', VStatus completed), (''itinerary'', member_of data (js ''itinerary'')),
                       (''completedAt'', VTime (clock w (length ws)))]),
              (jobId, [(''status'', VStatus failed), (''error'', VMessage e),
                       (''completedAt'', VTime (clock w (Suc (length ws))))])])
   \<and> 1 \<le> length (terminal_writes jobId (drop (length ws) (writes (generateItineraryAsync w ws jobId d n))))
   \<and> length (terminal_writes jobId (drop (length ws) (writes (generateItineraryAsync w ws jobId d n)))) \<le> 2"
proof -
  obtain r ds where g: "generate w = (r, ds)" by (cases "generate w")
  show ?thesis
  proof (cases r)
    case (Inl err')
    with g show ?thesis
      by (simp add: task_fail terminal_writes_def terminal_def)
  next
    case (Inr data')
    show ?thesis
    proof (cases "firestore w (length ws)")
      case None
      with g Inr show ?thesis
        by (simp add: task_completed terminal_writes_def terminal_def)
    next
      case (Some e')
      with g Inr show ?thesis
        by (simp add: task_completed_write_throws terminal_writes_def terminal_def)
    qed
  qed
qed

theorem task_terminal_writes_witness:
  "fst (generate world_network_down) = Inl (Thrown (js ''fetch failed''))
   \<and> writes (generateItineraryAsync world_network_down [] sample_jobId None None) =
       [(sample_jobId, [(''status'', VStatus failed), (''error'', VMessage (Thrown (js ''fetch failed''))),
                        (''completedAt'', VTime 1000)])]
   \<and> fst (generate sample_world) = Inr (JObj [(js ''itinerary'', JArr [])])
   \<and> firestore sample_world 0 = None
   \<and> writes (generateItineraryAsync sample_world [] sample_jobId None None) =
       [(sample_jobId, [(''status'', VStatus completed), (''itinerary'', VJson (JArr [])),
                        (''completedAt'', VTime 1000)])]
   \<and> fst (generate world_completed_write_fails) = Inr (JObj [(js ''itinerary'', JArr [])])
   \<and> firestore world_completed_write_fails 1 = Some (Thrown (js ''Firestore error: 503''))
   \<and> writes (generateItineraryAsync world_completed_write_fails [(sample_jobId, [])] sample_jobId None None) =
       [(sample_jobId, []),
        (sample_jobId, [(''status'', VStatus completed), (''itinerary'', VJson (JArr [])),
                        (''completedAt'', VTime 1001)]),
        (sample_jobId, [(''status'', VStatus failed), (''error'', VMessage (Thrown (js ''Firestore error: 503''))),
                        (''completedAt'', VTime 1002)])]"
proof -
  have g1: "fst (generate world_network_down) = Inl (Thrown (js ''fetch failed''))"
    using generate_network_down [of world_network_down "\<lambda>k. Thrown (js ''fetch failed'')"]
    by (simp add: world_network_down_def sample_world_def)
  have g2: "fst (generate sample_world) = Inr (JObj [(js ''itinerary'', JArr [])])"
    using generate_sample [of sample_world] by (simp add: sample_world_def)
  have g3: "fst (generate world_completed_write_fails) = Inr (JObj [(js ''itinerary'', JArr [])])"
    using generate_sample [of world_completed_write_fails]
    by (simp add: world_completed_write_fails_def sample_world_def)
  have f2: "firestore sample_world 0 = None" by (simp add: sample_world_def)
  have f3: "firestore world_completed_write_fails 1 = Some (Thrown (js ''Firestore error: 503''))"
    by (simp add: world_completed_write_fails_def sample_world_def)
  have c1: "clock world_network_down 0 = 1000" "clock sample_world 0 = 1000"
    "clock world_completed_write_fails (Suc 0) = 1001" "clock world_completed_write_fails (Suc (Suc 0)) = 1002"
    by (simp_all add: world_network_down_def world_completed_write_fails_def sample_world_def)
  note t1 = task_terminal_writes [of world_network_down "Thrown (js ''fetch failed'')" "[]" sample_jobId None None
      JNull "Thrown []", THEN conjunct1, THEN mp, OF g1]
  note t2 = task_terminal_writes [of sample_world "Thrown []" "[]" sample_jobId None None
      "JObj [(js ''itinerary'', JArr [])]" "Thrown []", THEN conjunct2, THEN conjunct1, THEN mp]
  note t3 = task_terminal_writes [of world_completed_write_fails "Thrown []" "[(sample_jobId, [])]" sample_jobId None None
      "JObj [(js ''itinerary'', JArr [])]" "Thrown (js ''Firestore error: 503'')",
      THEN conjunct2, THEN conjunct2, THEN conjunct1, THEN mp]
  have w1: "writes (generateItineraryAsync world_network_down [] sample_jobId None None) =
       [(sample_jobId, [(''status'', VStatus failed), (''error'', VMessage (Thrown (js ''fetch failed''))),
                        (''completedAt'', VTime 1000)])]"
    using t1 by (simp add: c1)
  have w2: "writes (generateItineraryAsync sample_world [] sample_jobId None None) =
       [(sample_jobId, [(''status'', VStatus completed), (''itinerary'', VJson (JArr [])),
                        (''completedAt'', VTime 1000)])]"
    using t2 g2 f2 by (simp add: c1)
  have w3: "writes (generateItineraryAsync world_completed_write_fails [(sample_jobId, [])] sample_jobId None None) =
       [(sample_jobId, []),
        (sample_jobId, [(''status'', VStatus completed), (''itinerary'', VJson (JArr [])),
                        (''completedAt'', VTime 1001)]),
        (sample_jobId, [(''status'', VStatus failed), (''error'', VMessage (Thrown (js ''Firestore error: 503''))),
                        (''completedAt'', VTime 1002)])]"
    using t3 g3 f3 by (simp add: c1)
  show ?thesis by (intro conjI) (fact g1, fact w1, fact g2, fact f2, fact w2, fact g3, fact f3, fact w3)
qed

text \<open>
  C4, as stated, fails: the write of the \<^verbatim>\<open>catch\<close> block is not protected, and
  \<^verbatim>\<open>writeToFirestore\<close> rethrows; when the network is down and that write throws,
  the task's promise rejects.
\<close>

theorem rejected_task_counterexample:
  "fst (generate world_all_down) = Inl (Thrown (js ''fetch failed''))
   \<and> rejected (lifecycle world_all_down sample_jobId sample_request)
       = Some (Thrown (js ''Firestore error: 503''))"
proof -
  let ?w = world_all_down
  have g: "generate ?w = (Inl (Thrown (js ''fetch failed'')), [500, 1000, 2000])"
    by (rule generate_network_down)
      (simp add: world_all_down_def world_network_down_def sample_world_def)
  have f0: "firestore ?w 0 = None"
    by (simp add: world_all_down_def world_network_down_def sample_world_def)
  show ?thesis
    by (simp add: g lifecycle_sample [OF f0] task_fail [OF g])
      (simp add: world_all_down_def world_network_down_def sample_world_def)
qed

text \<open>
  C4, amended. Every error that leaves the pipeline (a network failure after the
  retries, a response that is not OK, an unreadable body, an answer of another shape, a
  text that does not parse, a value the schema rejects) is caught: the task issues
  exactly one write, with status failed, the error's message and the completion time.
  The task ends normally when that write resolves; when the write throws, the task
  rejects with the write's error.
\<close>

theorem pipeline_failure_is_recorded:
  "fst (generate w) = Inl err \<Longrightarrow>
     writes (generateItineraryAsync w ws jobId d n) =
       ws @ [(jobId, [(''status'', VStatus failed), (''error'', VMessage err),
                      (''completedAt'', VTime (clock w (length ws)))])]
     \<and> rejected (generateItineraryAsync w ws jobId d n) = firestore w (length ws)"
proof -
  assume "fst (generate w) = Inl err"
  then have "generate w = (Inl err, snd (generate w))" by (cases "generate w") simp
  from task_fail [OF this] show ?thesis by simp
qed

theorem pipeline_failure_is_recorded_witness:
  "fst (generate world_network_down) = Inl (Thrown (js ''fetch failed''))
   \<and> writes (generateItineraryAsync world_network_down [] sample_jobId None None) =
       [(sample_jobId, [(''status'', VStatus failed), (''error'', VMessage (Thrown (js ''fetch failed''))),
                        (''completedAt'', VTime 1000)])]
   \<and> rejected (generateItineraryAsync world_network_down [] sample_jobId None None) = None"
proof -
  have g1: "fst (generate world_network_down) = Inl (Thrown (js ''fetch failed''))"
    using generate_network_down [of world_network_down "\<lambda>k. Thrown (js ''fetch failed'')"]
    by (simp add: world_network_down_def sample_world_def)
  from pipeline_failure_is_recorded [OF g1, of "[]" sample_jobId None None] g1
  show ?thesis by (simp add: world_network_down_def sample_world_def)
qed










subsection \<open>The request handler\<close>

lemma createJob_conversion_throws:
  "toNumber w (JObj kvs) = Inl err \<Longrightarrow>
   fetch w jobId
     \<lparr>http_method = ''POST'', pathname = ''/api'',
      req_json = Inr (JObj [(js ''destination'', JStr (js ''Paris'')),
                             (js ''durationDays'', JObj kvs)])\<rparr>
   = \<lparr>reply = Uncaught err, issued = [], background = None\<rparr>"
  by (simp add: fetch_def createJob_def js_def)

text \<open>
  C3. The handler checks the type of \<^verbatim>\<open>destination\<close> but not the type of
  \<^verbatim>\<open>durationDays\<close>: a value that is truthy and does not convert to a number
  \<^verbatim>\<open><= 0\<close> passes. For the body
  \<^verbatim>\<open>{"destination": "Paris", "durationDays": true}\<close> the handler writes the
  initial record, with \<^verbatim>\<open>durationDays: true\<close>, and, when that write resolves,
  replies 202 and starts the task.
\<close>

theorem non_number_durationDays_accepted:
  "fetch w jobId
     \<lparr>http_method = ''POST'', pathname = ''/api'',
      req_json = Inr (JObj [(js ''destination'', JStr (js ''Paris'')),
                             (js ''durationDays'', JBool True)])\<rparr>
   = \<lparr>reply = (case firestore w 0 of None \<Rightarrow> Reply 202 (JobBody jobId) | Some err \<Rightarrow> Uncaught err),
      issued = [(jobId, [(''status'', VStatus processing),
                      (''destination'', VJson (JStr (js ''Paris''))),
                      (''durationDays'', VJson (JBool True)),
                      (''createdAt'', VTime (clock w 0)),
                      (''completedAt'', VNull),
                      (''itinerary'', VNull),
                      (''error'', VNull)])],
      background = (case firestore w 0 of
                      None \<Rightarrow> Some (jobId, Some (JStr (js ''Paris'')), Some (JBool True))
                    | Some err \<Rightarrow> None)\<rparr>"
  by (simp add: fetch_def createJob_def writeToFirestore_def js_def split: option.splits)

subsection \<open>The job record\<close>











end
